theory Spec2Isabelle
  imports Main
begin

section \<open>Strings and numbers of the host language\<close>

text \<open>
  Strings are lists of 8-bit code units (the Latin-1 part of the source language's strings).
  A number is either \<open>NaN\<close> or an integer: \<open>parseInt\<close> produces nothing else, and the
  parser only adds such numbers. Integers are unbounded here; the source's doubles agree with
  them up to \<open>2^53\<close>.
\<close>

datatype number = NaN | Fin int

datatype error = TypeError | RangeError

text \<open>\<open>a <= b\<close> on numbers: false as soon as one side is \<open>NaN\<close>.\<close>

fun le_num :: "number \<Rightarrow> number \<Rightarrow> bool" where
  "le_num (Fin a) (Fin b) = (a \<le> b)"
| "le_num _ _ = False"

text \<open>\<open>a + b\<close> on numbers: \<open>NaN\<close> as soon as one side is \<open>NaN\<close>.\<close>

fun add_num :: "number \<Rightarrow> number \<Rightarrow> number" where
  "add_num (Fin a) (Fin b) = Fin (a + b)"
| "add_num _ _ = NaN"

text \<open>\<open>isNaN\<close>.\<close>

fun isNaN :: "number \<Rightarrow> bool" where
  "isNaN NaN = True"
| "isNaN (Fin _) = False"

text \<open>\<open>s.split(sep)\<close> for a separator of one character: never empty, \<open>"".split(sep) = [""]\<close>.\<close>

fun split_str :: "char \<Rightarrow> string \<Rightarrow> string list" where
  "split_str sep [] = [[]]"
| "split_str sep (c # cs) =
     (if c = sep then [] # split_str sep cs
      else (case split_str sep cs of
              [] \<Rightarrow> [[c]]
            | w # ws \<Rightarrow> (c # w) # ws))"

text \<open>\<open>s.includes(sub)\<close>: \<open>sub\<close> occurs in \<open>s\<close> as a substring.\<close>

fun includes_str :: "string \<Rightarrow> string \<Rightarrow> bool" where
  "includes_str [] sub = (sub = [])"
| "includes_str (c # cs) sub = (take (length sub) (c # cs) = sub \<or> includes_str cs sub)"

text \<open>Array destructuring \<open>[a, b, c] = xs\<close>: a missing position is \<open>undefined\<close> (\<open>None\<close>).\<close>

fun nth_opt :: "'a list \<Rightarrow> nat \<Rightarrow> 'a option" where
  "nth_opt [] n = None"
| "nth_opt (x # xs) 0 = Some x"
| "nth_opt (x # xs) (Suc n) = nth_opt xs n"

text \<open>A template literal prints \<open>undefined\<close> for a missing value.\<close>

fun template :: "string option \<Rightarrow> string" where
  "template None = ''undefined''"
| "template (Some s) = s"

subsection \<open>\<open>parseInt\<close>\<close>

text \<open>
  \<open>parseInt(s)\<close> with no radix: leading white space is dropped, then an optional sign, then
  an optional \<open>0x\<close>/\<open>0X\<close> prefix (radix 16, otherwise 10); the longest prefix of digits of
  the radix is the value, and \<open>NaN\<close> when that prefix is empty. What follows the digits is
  ignored.
\<close>

definition is_space :: "char \<Rightarrow> bool" where
  "is_space c = ((of_char c :: nat) \<in> {9, 10, 11, 12, 13, 32, 160})"

definition digit_of :: "char \<Rightarrow> nat" where
  "digit_of c =
     (let n = (of_char c :: nat) in
      if 48 \<le> n \<and> n \<le> 57 then n - 48
      else if 97 \<le> n \<and> n \<le> 122 then n - 87
      else if 65 \<le> n \<and> n \<le> 90 then n - 55
      else 36)"

definition is_digit :: "nat \<Rightarrow> char \<Rightarrow> bool" where
  "is_digit radix c = (digit_of c < radix)"

definition digits_value :: "nat \<Rightarrow> string \<Rightarrow> int" where
  "digits_value radix ds = foldl (\<lambda>a c. a * int radix + int (digit_of c)) 0 ds"

definition parseInt :: "string \<Rightarrow> number" where
  "parseInt s =
     (let s1 = dropWhile is_space s;
          sign = (if take 1 s1 = ''-'' then - 1 else 1 :: int);
          s2 = (if take 1 s1 = ''-'' \<or> take 1 s1 = ''+'' then drop 1 s1 else s1);
          hex = (take 2 s2 = ''0x'' \<or> take 2 s2 = ''0X'');
          radix = (if hex then 16 else 10 :: nat);
          s3 = (if hex then drop 2 s2 else s2);
          z = takeWhile (is_digit radix) s3
      in if z = [] then NaN else Fin (sign * digits_value radix z))"

text \<open>\<open>parseInt(undefined)\<close> reads the text \<open>undefined\<close>, which has no digit.\<close>

fun parseInt_opt :: "string option \<Rightarrow> number" where
  "parseInt_opt None = NaN"
| "parseInt_opt (Some s) = parseInt s"

section \<open>The expression parser (\<open>lib/parser.ts\<close>)\<close>

text \<open>\<open>CronTime\<close>: six optional arrays of numbers.\<close>

record CronTime =
  second :: "number list option"
  minute :: "number list option"
  hour :: "number list option"
  dayOfMonth :: "number list option"
  month :: "number list option"
  dayOfWeek :: "number list option"

text \<open>The table of fixed aliases.\<close>

definition aliases :: "(string \<times> string) list" where
  "aliases =
     [(''@every_second'', ''* * * * * *''),
      (''@every_minute'', ''0 * * * * *''),
      (''@yearly'', ''0 0 1 1 * *''),
      (''@annually'', ''0 0 1 1 * *''),
      (''@monthly'', ''0 0 1 * * *''),
      (''@weekly'', ''0 0 * * 0 *''),
      (''@daily'', ''0 0 * * * *''),
      (''@hourly'', ''0 * * * * *'')]"

text \<open>\<open>parseEveryStr\<close>: \<open>@every_<value>_<unit>\<close>.\<close>

definition parseEveryStr :: "string \<Rightarrow> string" where
  "parseEveryStr str =
     (let parts = split_str CHR ''_'' str;
          val = template (nth_opt parts 1);
          unit = nth_opt parts 2
      in if unit = Some ''seconds'' then ''*/'' @ val @ '' * * * * *''
         else if unit = Some ''minutes'' then ''0 */'' @ val @ '' * * * *''
         else if unit = Some ''hours'' then ''0 0 */'' @ val @ '' * * *''
         else if unit = Some ''dayOfMonth'' then ''0 0 0 */'' @ val @ '' * *''
         else if unit = Some ''months'' then ''0 0 0 0 */'' @ val @ '' *''
         else if unit = Some ''dayOfWeek'' then ''0 0 0 0 0 */'' @ val
         else ''* * * * * *'')"

text \<open>
  \<open>parseAtHourStr\<close>: \<open>@at_<hour>:<minute>\<close>. Splitting a missing \<open>time\<close> would be a
  \<open>TypeError\<close>.
\<close>

definition parseAtHourStr :: "string \<Rightarrow> error + string" where
  "parseAtHourStr str =
     (case nth_opt (split_str CHR ''_'' str) 1 of
        None \<Rightarrow> Inl TypeError
      | Some time \<Rightarrow>
          (let hm = split_str CHR '':'' time
           in Inr (''0 '' @ template (nth_opt hm 1) @ '' '' @ template (nth_opt hm 0)
                   @ '' * * *'')))"

text \<open>\<open>parseOnDayStr\<close>: \<open>@on_<day>\<close>, with its own table of day numbers.\<close>

definition days :: "(string \<times> string) list" where
  "days =
     [(''sunday'', ''1''), (''monday'', ''2''), (''tuesday'', ''3''), (''wednesday'', ''4''),
      (''thursday'', ''5''), (''friday'', ''6''), (''saturday'', ''7'')]"

definition parseOnDayStr :: "string \<Rightarrow> string" where
  "parseOnDayStr str =
     (case nth_opt (split_str CHR ''_'' str) 1 of
        None \<Rightarrow> ''0 0 0 * * undefined''
      | Some day \<Rightarrow> ''0 0 0 * * '' @ template (map_of days day))"

text \<open>\<open>parseBetweenStr\<close>: \<open>@between_<start>_<end>\<close>.\<close>

definition parseBetweenStr :: "string \<Rightarrow> string" where
  "parseBetweenStr str =
     (let parts = split_str CHR ''_'' str
      in ''0 0 '' @ template (nth_opt parts 1) @ ''-'' @ template (nth_opt parts 2)
         @ '' * * *'')"

text \<open>\<open>parseStr\<close>: the fixed aliases first, then the four families, then the text itself.\<close>

definition parseStr :: "string \<Rightarrow> error + string" where
  "parseStr str =
     (case map_of aliases str of
        Some e \<Rightarrow> Inr e
      | None \<Rightarrow>
          if includes_str str ''@every_'' then Inr (parseEveryStr str)
          else if includes_str str ''@at_'' then parseAtHourStr str
          else if includes_str str ''@on_'' then Inr (parseOnDayStr str)
          else if includes_str str ''@between_'' then Inr (parseBetweenStr str)
          else Inr str)"

text \<open>
  The loop \<open>for (let i = start; i <= end; i += step) result.push(i)\<close>. An array holds at
  most \<open>2^32 - 1\<close> elements, and the \<open>push\<close> that would make it longer throws a
  \<open>RangeError\<close>: so ends the loop whose step is not positive, and every loop that would push
  more. (The memory of the host is not modelled.)
\<close>

function for_loop :: "number \<Rightarrow> number \<Rightarrow> number \<Rightarrow> number list \<Rightarrow> error + number list" where
  "for_loop i end step result =
     (if le_num i end then
        (if int (length result) < 4294967295
         then for_loop (add_num i step) end step (result @ [i])
         else Inl RangeError)
      else Inr result)"
  by pat_completeness auto

termination
  by (relation "measure (\<lambda>(i, e, s, result). nat (4294967295 - int (length result)))") auto

declare for_loop.simps [simp del]

text \<open>\<open>getStep\<close>: the number after the first \<open>/\<close>, and 1 when there is none.\<close>

definition getStep :: "string \<Rightarrow> number" where
  "getStep cronTime =
     (let parsedStep = parseInt_opt (nth_opt (split_str CHR ''/'' cronTime) 1)
      in if isNaN parsedStep then Fin 1 else parsedStep)"

text \<open>
  \<open>parseCronTime\<close>: one field. The field is \<open>undefined\<close> (\<open>None\<close>) when the expression
  has fewer than six fields; \<open>undefined.includes\<close> is then a \<open>TypeError\<close>. The outcome is
  an outcome of the kind defined next; \<open>parseCronTime\<close> itself always returns or throws.
\<close>

definition list_loop :: "string list \<Rightarrow> number list" where
  "list_loop tms = map parseInt tms"

definition parseCronTime ::
  "string option \<Rightarrow> int \<Rightarrow> int \<Rightarrow> (error + number list) option" where
  "parseCronTime cronTime minv maxv =
     (case cronTime of
        None \<Rightarrow> Some (Inl TypeError)
      | Some ct \<Rightarrow>
          if ct = ''*'' then Some (for_loop (Fin minv) (Fin maxv) (Fin 1) [])
          else if CHR ''-'' \<in> set ct then
            (let parts = split_str CHR ''-'' ct;
                 step = getStep ct
             in Some
                  (for_loop (parseInt_opt (nth_opt parts 0)) (parseInt_opt (nth_opt parts 1))
                     step []))
          else if CHR ''/'' \<in> set ct then
            (let parts = split_str CHR ''/'' ct;
                 start = (if nth_opt parts 0 = Some ''*'' then Fin minv
                          else parseInt_opt (nth_opt parts 0))
             in Some (for_loop start (Fin maxv) (parseInt_opt (nth_opt parts 1)) []))
          else if CHR '','' \<in> set ct then Some (Inr (list_loop (split_str CHR '','' ct)))
          else Some (Inr [parseInt ct]))"

text \<open>
  A computation that may not return (\<open>None\<close>), may throw (\<open>Inl\<close>) or returns (\<open>Inr\<close>),
  and the sequencing of two of them.
\<close>

definition and_then ::
  "(error + 'a) option \<Rightarrow> ('a \<Rightarrow> (error + 'b) option) \<Rightarrow> (error + 'b) option" where
  "and_then m f =
     (case m of
        None \<Rightarrow> None
      | Some (Inl e) \<Rightarrow> Some (Inl e)
      | Some (Inr x) \<Rightarrow> f x)"

text \<open>
  The body of \<open>parse\<close> after the alias is resolved: the six fields are parsed from left to
  right, and the first one that throws decides. (No field fails to return: the option is
  there for the searches, which may.)
\<close>

definition parse_fields :: "string \<Rightarrow> (error + CronTime) option" where
  "parse_fields cron =
     (let fs = split_str CHR '' '' cron in
      and_then (parseCronTime (nth_opt fs 0) 0 59) (\<lambda>s.
      and_then (parseCronTime (nth_opt fs 1) 0 59) (\<lambda>m.
      and_then (parseCronTime (nth_opt fs 2) 0 23) (\<lambda>h.
      and_then (parseCronTime (nth_opt fs 3) 1 31) (\<lambda>d.
      and_then (parseCronTime (nth_opt fs 4) 1 12) (\<lambda>mo.
      and_then (parseCronTime (nth_opt fs 5) 0 6) (\<lambda>w.
      Some (Inr \<lparr>second = Some s, minute = Some m, hour = Some h, dayOfMonth = Some d,
                  month = Some mo, dayOfWeek = Some w\<rparr>))))))))"

text \<open>
  \<open>parse\<close>, on the parser's only field \<open>this.cron\<close>: the new \<open>this.cron\<close> and the outcome.
\<close>

definition parse :: "string \<Rightarrow> string \<times> (error + CronTime) option" where
  "parse cron =
     (case parseStr cron of
        Inl e \<Rightarrow> (cron, Some (Inl e))
      | Inr c \<Rightarrow> (c, parse_fields c))"

subsection \<open>Dates\<close>

text \<open>
  A \<open>Date\<close> is its time value: a whole number of milliseconds since the epoch, of magnitude
  at most \<open>8.64e15\<close>, or \<open>NaN\<close> for an invalid date. The operations on time values are those
  of the language standard, under their names there.
\<close>

definition TimeClip :: "int \<Rightarrow> number" where
  "TimeClip t = (if 8640000000000000 < \<bar>t\<bar> then NaN else Fin t)"

definition Day :: "int \<Rightarrow> int" where
  "Day t = t div 86400000"

definition TimeWithinDay :: "int \<Rightarrow> int" where
  "TimeWithinDay t = t mod 86400000"

definition HourFromTime :: "int \<Rightarrow> int" where
  "HourFromTime t = TimeWithinDay t div 3600000"

definition MinFromTime :: "int \<Rightarrow> int" where
  "MinFromTime t = TimeWithinDay t div 60000 mod 60"

definition SecFromTime :: "int \<Rightarrow> int" where
  "SecFromTime t = TimeWithinDay t div 1000 mod 60"

definition msFromTime :: "int \<Rightarrow> int" where
  "msFromTime t = t mod 1000"

definition WeekDay :: "int \<Rightarrow> int" where
  "WeekDay t = (Day t + 4) mod 7"

definition MakeTime :: "int \<Rightarrow> int \<Rightarrow> int \<Rightarrow> int \<Rightarrow> int" where
  "MakeTime h m s ms = h * 3600000 + m * 60000 + s * 1000 + ms"

definition MakeDate :: "int \<Rightarrow> int \<Rightarrow> int" where
  "MakeDate day time = day * 86400000 + time"

text \<open>
  The proleptic Gregorian calendar, counted in years that start on the first of March, in
  cycles of 400, 100, 4 and 1 years. \<open>day_of_year\<close> is the day within such a year (0 is the
  first of March) of a day counted from the epoch, \<open>march_year\<close> is that year, and
  \<open>month_of_year\<close> is the month within it (0 is March).
\<close>

definition day_of_year :: "int \<Rightarrow> int" where
  "day_of_year dayno =
     (let doe = (dayno + 719468) mod 146097;
          n100 = min 3 (doe div 36524);
          d2 = doe - n100 * 36524;
          d3 = d2 mod 1461;
          n1 = min 3 (d3 div 365)
      in d3 - n1 * 365)"

definition march_year :: "int \<Rightarrow> int" where
  "march_year dayno =
     (let era = (dayno + 719468) div 146097;
          doe = (dayno + 719468) mod 146097;
          n100 = min 3 (doe div 36524);
          d2 = doe - n100 * 36524;
          n4 = d2 div 1461;
          d3 = d2 mod 1461;
          n1 = min 3 (d3 div 365)
      in 400 * era + 100 * n100 + 4 * n4 + n1)"

definition month_of_year :: "int \<Rightarrow> int" where
  "month_of_year dayno = (5 * day_of_year dayno + 2) div 153"

definition YearFromTime :: "int \<Rightarrow> int" where
  "YearFromTime t = march_year (Day t) + (if month_of_year (Day t) < 10 then 0 else 1)"

definition MonthFromTime :: "int \<Rightarrow> int" where
  "MonthFromTime t =
     (let mp = month_of_year (Day t) in if mp < 10 then mp + 2 else mp - 10)"

definition DateFromTime :: "int \<Rightarrow> int" where
  "DateFromTime t = day_of_year (Day t) - (153 * month_of_year (Day t) + 2) div 5 + 1"

text \<open>
  \<open>MakeDay\<close>: the day, counted from the epoch, of the given date of the given month (0 is
  January; months beyond a year carry into the year) of the given year.
\<close>

definition MakeDay :: "int \<Rightarrow> int \<Rightarrow> int \<Rightarrow> int" where
  "MakeDay year mon date =
     (let ym = year + mon div 12;
          mn = mon mod 12;
          my = (if mn < 2 then ym - 1 else ym);
          mp = (mn + 10) mod 12
      in 365 * my + my div 4 - my div 100 + my div 400 + (153 * mp + 2) div 5 - 719468
         + date - 1)"

text \<open>What the getters of a date return: numbers, all \<open>NaN\<close> for an invalid date.\<close>

record LocalTime =
  getFullYear :: number
  getMonth :: number
  getDate :: number
  getHours :: number
  getMinutes :: number
  getSeconds :: number
  getDay :: number

text \<open>The fields of a time value read in universal time.\<close>

definition utc :: "int \<Rightarrow> LocalTime" where
  "utc t =
     \<lparr>getFullYear = Fin (YearFromTime t),
      getMonth = Fin (MonthFromTime t),
      getDate = Fin (DateFromTime t),
      getHours = Fin (HourFromTime t),
      getMinutes = Fin (MinFromTime t),
      getSeconds = Fin (SecFromTime t),
      getDay = Fin (WeekDay t)\<rparr>"

definition invalid_date :: LocalTime where
  "invalid_date =
     \<lparr>getFullYear = NaN, getMonth = NaN, getDate = NaN, getHours = NaN, getMinutes = NaN,
      getSeconds = NaN, getDay = NaN\<rparr>"

text \<open>
  The time zone of the host gives the offset of local time from universal time, in
  milliseconds: \<open>offset_utc\<close> at a time value, and \<open>offset_local\<close> at a local time (where a
  local time is skipped or repeated, the offset before the transition). The local fields of a
  date are those of its local time.
\<close>

record zone =
  offset_utc :: "int \<Rightarrow> int"
  offset_local :: "int \<Rightarrow> int"

definition local_time :: "zone \<Rightarrow> int \<Rightarrow> int" where
  "local_time z t = t + offset_utc z t"

definition utc_time :: "zone \<Rightarrow> int \<Rightarrow> int" where
  "utc_time z t = t - offset_local z t"

definition local_fields :: "zone \<Rightarrow> number \<Rightarrow> LocalTime" where
  "local_fields z d = (case d of NaN \<Rightarrow> invalid_date | Fin t \<Rightarrow> utc (local_time z t))"

text \<open>
  \<open>new Date(year, month, date, hours, minutes, seconds)\<close>: the fields are read as local time,
  and a year from 0 to 99 as a year of the twentieth century.
\<close>

fun Date_new ::
  "zone \<Rightarrow> number \<Rightarrow> number \<Rightarrow> number \<Rightarrow> number \<Rightarrow> number \<Rightarrow> number \<Rightarrow> number" where
  "Date_new z (Fin y) (Fin m) (Fin dt) (Fin h) (Fin mi) (Fin s) =
     (let yr = (if 0 \<le> y \<and> y \<le> 99 then 1900 + y else y)
      in TimeClip (utc_time z (MakeDate (MakeDay yr m dt) (MakeTime h mi s 0))))"
| "Date_new z _ _ _ _ _ _ = NaN"

text \<open>\<open>d.setMilliseconds(ms)\<close> and \<open>d.setSeconds(sec)\<close>: the new time value of \<open>d\<close>.\<close>

fun setMilliseconds :: "zone \<Rightarrow> number \<Rightarrow> number \<Rightarrow> number" where
  "setMilliseconds z (Fin tv) (Fin ms) =
     (let t = local_time z tv
      in TimeClip (utc_time z
           (MakeDate (Day t) (MakeTime (HourFromTime t) (MinFromTime t) (SecFromTime t) ms))))"
| "setMilliseconds z _ _ = NaN"

fun setSeconds :: "zone \<Rightarrow> number \<Rightarrow> number \<Rightarrow> number" where
  "setSeconds z (Fin tv) (Fin s) =
     (let t = local_time z tv
      in TimeClip (utc_time z
           (MakeDate (Day t) (MakeTime (HourFromTime t) (MinFromTime t) s (msFromTime t)))))"
| "setSeconds z _ _ = NaN"

text \<open>Universal time as the zone of the host.\<close>

definition universal :: zone where
  "universal = \<lparr>offset_utc = (\<lambda>t. 0), offset_local = (\<lambda>t. 0)\<rparr>"


subsection \<open>Matching and searching\<close>

text \<open>\<open>field && !field.includes(v)\<close>: a missing field excludes nothing.\<close>

fun excludes :: "number list option \<Rightarrow> number \<Rightarrow> bool" where
  "excludes None v = False"
| "excludes (Some xs) v = (v \<notin> set xs)"

text \<open>\<open>checkCronTime\<close>: the chain of tests, in the order of the source.\<close>

definition checkCronTime :: "CronTime \<Rightarrow> LocalTime \<Rightarrow> bool" where
  "checkCronTime cronTime date =
     (if excludes (second cronTime) (getSeconds date) then False
      else if excludes (minute cronTime) (getMinutes date) then False
      else if excludes (hour cronTime) (getHours date) then False
      else if excludes (dayOfMonth cronTime) (getDate date) then False
      else if excludes (month cronTime) (add_num (getMonth date) (Fin 1)) then False
      else if excludes (dayOfWeek cronTime) (getDay date) then False
      else True)"

text \<open>
  The start of both searches: the date built from the local fields of \<open>now\<close>, with its
  milliseconds set to 0.
\<close>

definition truncated :: "zone \<Rightarrow> int \<Rightarrow> number" where
  "truncated z now =
     (let f = local_fields z (Fin now);
          d = Date_new z (getFullYear f) (getMonth f) (getDate f) (getHours f) (getMinutes f)
                (getSeconds f)
      in setMilliseconds z d (Fin 0))"

text \<open>\<open>d.setSeconds(d.getSeconds() + n)\<close>.\<close>

definition step_seconds :: "zone \<Rightarrow> int \<Rightarrow> number \<Rightarrow> number" where
  "step_seconds z n d = setSeconds z d (add_num (getSeconds (local_fields z d)) (Fin n))"

text \<open>
  The two search loops: \<open>while (!checkCronTime(cronTime, d)) d.setSeconds(d.getSeconds() \<plusminus> 1)\<close>.
  Neither has a bound; a search that goes on forever has no value.
\<close>

partial_function (option) next_loop :: "zone \<Rightarrow> CronTime \<Rightarrow> number \<Rightarrow> number option" where
  "next_loop z cronTime d =
     (if checkCronTime cronTime (local_fields z d) then Some d
      else next_loop z cronTime (step_seconds z 1 d))"

declare next_loop.simps [code]



text \<open>
  \<open>getNext\<close> and \<open>getPrevious\<close>, for the zone of the host and the current time \<open>now\<close> (a
  valid time value), on the parser's field \<open>this.cron\<close>: the new \<open>this.cron\<close> and the
  outcome, a date.
\<close>

definition getNext :: "zone \<Rightarrow> int \<Rightarrow> string \<Rightarrow> string \<times> (error + number) option" where
  "getNext z now cron =
     (let (cron', r) = parse cron
      in (cron', and_then r (\<lambda>cronTime.
            map_option Inr (next_loop z cronTime (step_seconds z 1 (truncated z now))))))"


section \<open>The static functions of \<open>Cron\<close> (\<open>lib/cron.ts\<close>)\<close>

text \<open>\<open>Cron.parse\<close>: a new parser is made, asked to parse, and dropped.\<close>

definition Cron_parse :: "string \<Rightarrow> (error + CronTime) option" where
  "Cron_parse cron = snd (parse cron)"

text \<open>\<open>Cron.isCron\<close>: \<open>true\<close> when \<open>parse\<close> returns, \<open>false\<close> when it throws.\<close>

definition isCron :: "string \<Rightarrow> bool option" where
  "isCron cron =
     (case Cron_parse cron of
        None \<Rightarrow> None
      | Some (Inl e) \<Rightarrow> Some False
      | Some (Inr cronTime) \<Rightarrow> Some True)"

definition isValid :: "string \<Rightarrow> bool option" where
  "isValid cron = isCron cron"

section \<open>The job (\<open>lib/cron.ts\<close>)\<close>

text \<open>
  The three callbacks are opaque to the job, and what they throw is swallowed: a job records
  whether each was supplied, and \<open>calls\<close> lists their invocations, oldest first. The timer
  handle \<open>interval\<close> is \<open>null\<close> (\<open>None\<close>) or a handle that is still armed (\<open>Some True\<close>) or
  cleared (\<open>Some False\<close>). \<open>next_run\<close> is the field \<open>next\<close>, and \<open>parser\<close> is the field
  \<open>this.cron\<close> of the job's parser.
\<close>

datatype Status = Running | Stopped

datatype event = Callback | OnTick | OnComplete

record Cron =
  name :: string
  cron :: string
  callback :: bool
  onTick :: bool
  onComplete :: bool
  interval :: "bool option"
  next_run :: "number option"
  status :: Status
  parser :: string
  calls :: "event list"

text \<open>How a method call ends: it never returns, it throws, or it returns; with the object
  as the call left it.\<close>

datatype 'a outcome = Forever | Throws error 'a | Returns 'a

text \<open>\<open>CBResolver\<close>: the callback is invoked when there is one.\<close>

definition CBResolver :: "bool \<Rightarrow> event \<Rightarrow> event list \<Rightarrow> event list" where
  "CBResolver supplied e tr = (if supplied then tr @ [e] else tr)"

text \<open>\<open>start\<close>, called at time \<open>now\<close>.\<close>

definition start :: "zone \<Rightarrow> int \<Rightarrow> Cron \<Rightarrow> Cron outcome" where
  "start z now this =
     (if status this = Running then Returns this
      else
        (let this1 = this\<lparr>status := Running\<rparr>;
             (p, r) = getNext z now (parser this1);
             this2 = this1\<lparr>parser := p\<rparr>
         in case r of
              None \<Rightarrow> Forever
            | Some (Inl e) \<Rightarrow> Throws e this2
            | Some (Inr t) \<Rightarrow> Returns (this2\<lparr>next_run := Some t, interval := Some True\<rparr>)))"

text \<open>The handler that \<open>start\<close> gives to \<open>setInterval\<close>, run at time \<open>now\<close>.\<close>

definition on_interval :: "zone \<Rightarrow> int \<Rightarrow> Cron \<Rightarrow> Cron outcome" where
  "on_interval z now this =
     (case next_run this of
        None \<Rightarrow> Returns this
      | Some n \<Rightarrow>
          if le_num n (Fin now) then
            (let this1 = this\<lparr>calls := CBResolver (callback this) Callback (calls this)\<rparr>;
                 this2 = this1\<lparr>calls := CBResolver (onTick this1) OnTick (calls this1)\<rparr>;
                 (p, r) = getNext z now (parser this2);
                 this3 = this2\<lparr>parser := p\<rparr>
             in case r of
                  None \<Rightarrow> Forever
                | Some (Inl e) \<Rightarrow> Throws e this3
                | Some (Inr t) \<Rightarrow> Returns (this3\<lparr>next_run := Some t\<rparr>))
          else Returns this)"

text \<open>\<open>stop\<close>: the handle is cleared, and kept.\<close>

definition stop :: "Cron \<Rightarrow> Cron" where
  "stop this =
     (if status this = Stopped then this
      else this\<lparr>status := Stopped, interval := map_option (\<lambda>armed. False) (interval this)\<rparr>)"

text \<open>\<open>destroy\<close>.\<close>

definition destroy :: "Cron \<Rightarrow> Cron" where
  "destroy this =
     (let this1 = stop this
      in this1\<lparr>calls := CBResolver (onComplete this1) OnComplete (calls this1)\<rparr>)"

definition getStatus :: "Cron \<Rightarrow> Status" where
  "getStatus this = status this"

definition isRunning :: "Cron \<Rightarrow> bool" where
  "isRunning this = (status this = Running)"

text \<open>
  What can happen to a job: a call of one of its methods, or the host running the handler
  of its timer, which it only does while the timer is armed.
\<close>

datatype operation = Start int | Stop | Destroy | Tick int

fun exec :: "zone \<Rightarrow> operation \<Rightarrow> Cron \<Rightarrow> Cron outcome" where
  "exec z (Start now) this = start z now this"
| "exec z Stop this = Returns (stop this)"
| "exec z Destroy this = Returns (destroy this)"
| "exec z (Tick now) this =
     (if interval this = Some True then on_interval z now this else Returns this)"

text \<open>A sequence of them, one after the other; the caller goes on after an exception.\<close>

fun run :: "zone \<Rightarrow> operation list \<Rightarrow> Cron \<Rightarrow> Cron option" where
  "run z [] this = Some this"
| "run z (x # xs) this =
     (case exec z x this of
        Forever \<Rightarrow> None
      | Throws e this' \<Rightarrow> run z xs this'
      | Returns this' \<Rightarrow> run z xs this')"

text \<open>The constructor, without \<open>options.start\<close>.\<close>

definition create :: "string \<Rightarrow> string \<Rightarrow> bool \<Rightarrow> bool \<Rightarrow> bool \<Rightarrow> Cron" where
  "create nm expr cb tick complete =
     \<lparr>name = nm, cron = expr, callback = cb, onTick = tick, onComplete = complete,
      interval = None, next_run = None, status = Stopped, parser = expr, calls = []\<rparr>"

section \<open>The registry (\<open>lib/baker.ts\<close>)\<close>

text \<open>
  The registry maps names to job objects. The objects live in a store, by reference: a job
  that leaves the registry is still an object, and whoever holds it can look at it.
\<close>

record Baker =
  heap :: "nat \<rightharpoonup> Cron"
  crons :: "string \<rightharpoonup> nat"

text \<open>\<open>remove\<close> and \<open>destroy\<close> of the registry: the same body.\<close>

definition Baker_remove :: "string \<Rightarrow> Baker \<Rightarrow> Baker" where
  "Baker_remove nm this =
     (case crons this nm of
        None \<Rightarrow> this
      | Some r \<Rightarrow>
          (case heap this r of
             None \<Rightarrow> this
           | Some c \<Rightarrow> this\<lparr>heap := (heap this)(r \<mapsto> destroy c), crons := (crons this)(nm := None)\<rparr>))"

definition Baker_destroy :: "string \<Rightarrow> Baker \<Rightarrow> Baker" where
  "Baker_destroy nm this =
     (case crons this nm of
        None \<Rightarrow> this
      | Some r \<Rightarrow>
          (case heap this r of
             None \<Rightarrow> this
           | Some c \<Rightarrow> this\<lparr>heap := (heap this)(r \<mapsto> destroy c), crons := (crons this)(nm := None)\<rparr>))"

text \<open>\<open>isRunning\<close> of the registry.\<close>

definition Baker_isRunning :: "string \<Rightarrow> Baker \<Rightarrow> bool" where
  "Baker_isRunning nm this =
     (case crons this nm of
        None \<Rightarrow> False
      | Some r \<Rightarrow> (case heap this r of None \<Rightarrow> False | Some c \<Rightarrow> isRunning c))"

section \<open>Notions used by the properties\<close>

text \<open>A number is an integer of the range from \<open>lo\<close> to \<open>hi\<close>.\<close>

definition in_range :: "int \<Rightarrow> int \<Rightarrow> number \<Rightarrow> bool" where
  "in_range lo hi x = (case x of NaN \<Rightarrow> False | Fin v \<Rightarrow> lo \<le> v \<and> v \<le> hi)"

text \<open>
  The numbers written in a field all lie in the range: the field is \<open>*\<close>; or a range
  \<open>A-B\<close> with both ends in the range, \<open>A\<close> not above \<open>B\<close>, and a step of at least 1; or a
  step \<open>V/S\<close> with \<open>V\<close> the wildcard or in the range and \<open>S\<close> at least 1; or a list of
  numbers of the range; or one number of the range. The numbers are read as the parser
  reads them.
\<close>

definition written_in_range :: "int \<Rightarrow> int \<Rightarrow> string \<Rightarrow> bool" where
  "written_in_range lo hi f =
     (if f = ''*'' then True
      else if CHR ''-'' \<in> set f then
        (let parts = split_str CHR ''-'' f;
             a = parseInt_opt (nth_opt parts 0);
             b = parseInt_opt (nth_opt parts 1)
         in in_range lo hi a \<and> in_range lo hi b \<and> le_num a b \<and> le_num (Fin 1) (getStep f))
      else if CHR ''/'' \<in> set f then
        (let parts = split_str CHR ''/'' f
         in (nth_opt parts 0 = Some ''*'' \<or> in_range lo hi (parseInt_opt (nth_opt parts 0)))
            \<and> le_num (Fin 1) (parseInt_opt (nth_opt parts 1)))
      else if CHR '','' \<in> set f then list_all (\<lambda>t. in_range lo hi (parseInt t)) (split_str CHR '','' f)
      else in_range lo hi (parseInt f))"

text \<open>A parsed field is a non-empty set of integers of the range.\<close>

definition field_ok :: "int \<Rightarrow> int \<Rightarrow> number list option \<Rightarrow> bool" where
  "field_ok lo hi field =
     (case field of None \<Rightarrow> False | Some xs \<Rightarrow> xs \<noteq> [] \<and> list_all (in_range lo hi) xs)"

text \<open>The ranges that \<open>parse\<close> passes for the six fields, and the six fields, in order.\<close>

definition declared_ranges :: "(int \<times> int) list" where
  "declared_ranges = [(0, 59), (0, 59), (0, 23), (1, 31), (1, 12), (0, 6)]"

definition fields_of :: "CronTime \<Rightarrow> number list option list" where
  "fields_of cronTime =
     [second cronTime, minute cronTime, hour cronTime, dayOfMonth cronTime, month cronTime,
      dayOfWeek cronTime]"








section \<open>Concrete inputs\<close>

text \<open>What \<open>parse\<close> makes of \<open>* * * * 1 *\<close>: every instant of January.\<close>

definition january_only :: CronTime where
  "january_only =
     \<lparr>second = Some (map Fin [0..59]), minute = Some (map Fin [0..59]),
      hour = Some (map Fin [0..23]), dayOfMonth = Some (map Fin [1..31]),
      month = Some [Fin 1], dayOfWeek = Some (map Fin [0..6])\<rparr>"

text \<open>What \<open>parse\<close> makes of \<open>* * * * * *\<close>.\<close>

definition every_second :: CronTime where
  "every_second =
     \<lparr>second = Some (map Fin [0..59]), minute = Some (map Fin [0..59]),
      hour = Some (map Fin [0..23]), dayOfMonth = Some (map Fin [1..31]),
      month = Some (map Fin [1..12]), dayOfWeek = Some (map Fin [0..6])\<rparr>"

text \<open>A job on \<open>* * * * * *\<close> that was started at time 0 in universal time.\<close>

definition started_job :: Cron where
  "started_job =
     \<lparr>name = ''test'', cron = ''* * * * * *'', callback = True, onTick = False,
      onComplete = True, interval = Some True, next_run = Some (Fin 1000), status = Running,
      parser = ''* * * * * *'', calls = []\<rparr>"



text \<open>A registry that holds the started job under its name.\<close>

definition test_registry :: Baker where
  "test_registry = \<lparr>heap = [0 \<mapsto> started_job], crons = [''test'' \<mapsto> 0]\<rparr>"

text \<open>
  What \<open>parse\<close> makes of \<open>1-10/2 1,2,3 * * * *\<close>: every second second from 1 to 9 of the
  first three minutes of every hour.
\<close>

definition readme_example :: CronTime where
  "readme_example =
     \<lparr>second = Some [Fin 1, Fin 3, Fin 5, Fin 7, Fin 9], minute = Some [Fin 1, Fin 2, Fin 3],
      hour = Some (map Fin [0..23]), dayOfMonth = Some (map Fin [1..31]),
      month = Some (map Fin [1..12]), dayOfWeek = Some (map Fin [0..6])\<rparr>"

section \<open>The counting loop\<close>

text \<open>When the loop returns its array, what is in it, and when it throws.\<close>

lemma for_loop_done: "\<not> le_num i e \<Longrightarrow> for_loop i e s acc = Inr acc"
  by (subst for_loop.simps) simp

lemma for_loop_step:
  "le_num i e \<Longrightarrow> int (length acc) < 4294967295
    \<Longrightarrow> for_loop i e s acc = for_loop (add_num i s) e s (acc @ [i])"
  by (subst for_loop.simps) simp

lemma for_loop_full:
  "le_num i e \<Longrightarrow> \<not> int (length acc) < 4294967295 \<Longrightarrow> for_loop i e s acc = Inl RangeError"
  by (subst for_loop.simps) simp

lemma for_loop_unit:
  assumes "int (length acc) + (hi - lo + 1) \<le> 4294967295"
  shows "for_loop (Fin lo) (Fin hi) (Fin 1) acc = Inr (acc @ map Fin [lo..hi])"
  using assms
proof (induction "nat (hi - lo + 1)" arbitrary: lo acc)
  case 0
  then have "\<not> lo \<le> hi" by simp
  then show ?case by (simp add: for_loop_done)
next
  case (Suc n)
  then have le: "lo \<le> hi" and n: "n = nat (hi - (lo + 1) + 1)" by simp_all
  have len: "int (length acc) < 4294967295" using Suc.prems le by simp
  have len': "int (length (acc @ [Fin lo])) + (hi - (lo + 1) + 1) \<le> 4294967295"
    using Suc.prems by simp
  have "for_loop (Fin lo) (Fin hi) (Fin 1) acc
      = for_loop (Fin (lo + 1)) (Fin hi) (Fin 1) (acc @ [Fin lo])"
    using le len by (simp add: for_loop_step)
  also have "\<dots> = Inr ((acc @ [Fin lo]) @ map Fin [lo + 1..hi])"
    using Suc.hyps(1) [OF n len'] .
  finally show ?case using le by (simp add: upto_rec1)
qed

lemma for_loop_positive:
  assumes "1 \<le> s"
  shows "int (length acc) + (e - i + 1) \<le> 4294967295 \<Longrightarrow>
         \<exists>xs. for_loop (Fin i) (Fin e) (Fin s) acc = Inr (acc @ xs)
           \<and> (i \<le> e \<longrightarrow> xs \<noteq> [])
           \<and> list_all (\<lambda>x. \<exists>v. x = Fin v \<and> i \<le> v \<and> v \<le> e) xs"
proof (induction "nat (e - i + 1)" arbitrary: i acc rule: less_induct)
  case less
  show ?case
  proof (cases "i \<le> e")
    case False
    then show ?thesis by (simp add: for_loop_done)
  next
    case True
    have m: "nat (e - (i + s) + 1) < nat (e - i + 1)" using True assms by simp
    have len: "int (length acc) < 4294967295" using less.prems True by simp
    have len': "int (length (acc @ [Fin i])) + (e - (i + s) + 1) \<le> 4294967295"
      using less.prems assms by simp
    from less.hyps [OF m len']
    obtain xs where xs: "for_loop (Fin (i + s)) (Fin e) (Fin s) (acc @ [Fin i])
        = Inr ((acc @ [Fin i]) @ xs)"
      and all: "list_all (\<lambda>x. \<exists>v. x = Fin v \<and> i + s \<le> v \<and> v \<le> e) xs" by blast
    have "for_loop (Fin i) (Fin e) (Fin s) acc = Inr (acc @ (Fin i # xs))"
      using True len xs by (simp add: for_loop_step)
    moreover have "list_all (\<lambda>x. \<exists>v. x = Fin v \<and> i \<le> v \<and> v \<le> e) (Fin i # xs)"
      using all True assms by (auto simp: list_all_iff)
    ultimately show ?thesis by blast
  qed
qed

lemma for_loop_overflow:
  assumes "d \<le> 0"
  shows "i \<le> e \<Longrightarrow> for_loop (Fin i) (Fin e) (Fin d) acc = Inl RangeError"
proof (induction "nat (4294967295 - int (length acc))" arbitrary: i acc rule: less_induct)
  case less
  show ?case
  proof (cases "int (length acc) < 4294967295")
    case False
    with less.prems show ?thesis by (simp add: for_loop_full)
  next
    case True
    have m: "nat (4294967295 - int (length (acc @ [Fin i]))) < nat (4294967295 - int (length acc))"
      using True by simp
    have "i + d \<le> e" using less.prems assms by simp
    from less.hyps [OF m this]
    have "for_loop (Fin (i + d)) (Fin e) (Fin d) (acc @ [Fin i]) = Inl RangeError" .
    then show ?thesis using less.prems True by (simp add: for_loop_step)
  qed
qed

section \<open>The calendar and the clock\<close>













lemma step_seconds_invalid: "step_seconds z n NaN = NaN"
  by (simp add: step_seconds_def)





section \<open>The search loops\<close>












section \<open>The claims\<close>

subsection \<open>Matching\<close>

lemma parse_january_only: "Cron_parse ''* * * * 1 *'' = Some (Inr january_only)"
  by code_simp

text \<open>
  C1, as stated, fails. The first of February 1970, 00:00:00, a Sunday, has its second,
  minute, hour, day of the month and day of the week in the field sets of \<open>* * * * 1 *\<close>, and
  only its month outside: \<open>checkCronTime\<close> rejects it, where the claim has it match through
  the day of the week.
\<close>

theorem checkCronTime_month_counterexample:
  "\<not> excludes (second january_only) (getSeconds (utc 2678400000))
   \<and> \<not> excludes (minute january_only) (getMinutes (utc 2678400000))
   \<and> \<not> excludes (hour january_only) (getHours (utc 2678400000))
   \<and> \<not> excludes (dayOfMonth january_only) (getDate (utc 2678400000))
   \<and> excludes (month january_only) (add_num (getMonth (utc 2678400000)) (Fin 1))
   \<and> \<not> excludes (dayOfWeek january_only) (getDay (utc 2678400000))
   \<and> \<not> checkCronTime january_only (utc 2678400000)"
  by code_simp

text \<open>
  C1, amended: for every parsed field set and every candidate instant, the candidate matches
  iff its second, minute, hour, day of the month, month and day of the week are each members
  of the corresponding field sets. The \<open>else\<close> between the tests of the month and of the day
  of the week changes nothing: when the month is not a member the candidate is rejected, and
  when it is a member the day of the week is tested.
\<close>

theorem checkCronTime_all_six:
  "checkCronTime
     \<lparr>second = Some S, minute = Some M, hour = Some H, dayOfMonth = Some D,
      month = Some Mo, dayOfWeek = Some W\<rparr> date
   \<longleftrightarrow> getSeconds date \<in> set S \<and> getMinutes date \<in> set M
       \<and> getHours date \<in> set H \<and> getDate date \<in> set D
       \<and> add_num (getMonth date) (Fin 1) \<in> set Mo \<and> getDay date \<in> set W"
  by (simp add: checkCronTime_def)

subsection \<open>Validity\<close>

text \<open>Each of the eight fixed aliases is valid.\<close>

lemma isValid_aliases: "list_all (\<lambda>a. isValid (fst a) = Some True) aliases"
  by code_simp

text \<open>
  With a step of 0 the counting loop of the first field ends with a \<open>RangeError\<close>, which
  \<open>isCron\<close> catches: the expression is not valid.
\<close>

lemma parseInt_zero: "parseInt ''0'' = Fin 0"
  by code_simp

lemma split_zero_step: "split_str CHR ''/'' ''*/0'' = [''*'', ''0'']"
  by code_simp

lemma parseCronTime_zero_step:
  "lo \<le> hi \<Longrightarrow> parseCronTime (Some ''*/0'') lo hi = Some (Inl RangeError)"
  by (simp add: parseCronTime_def split_zero_step parseInt_zero for_loop_overflow)

lemma isValid_zero_step: "isValid ''*/0 * * * * *'' = Some False"
proof -
  have "parseStr ''*/0 * * * * *'' = Inr ''*/0 * * * * *''" by code_simp
  moreover have "nth_opt (split_str CHR '' '' ''*/0 * * * * *'') 0 = Some ''*/0''" by code_simp
  ultimately show ?thesis
    by (simp add: isValid_def isCron_def Cron_parse_def parse_def parse_fields_def Let_def
        and_then_def parseCronTime_zero_step)
qed

text \<open>\<open>parse\<close> always returns or throws.\<close>

lemma parseCronTime_returns: "parseCronTime f lo hi \<noteq> None"
  by (simp add: parseCronTime_def Let_def split: option.splits)

lemma and_then_returns: "m \<noteq> None \<Longrightarrow> (\<And>x. f x \<noteq> None) \<Longrightarrow> and_then m f \<noteq> None"
  by (auto simp: and_then_def split: option.splits sum.splits)

lemma parse_returns: "snd (parse expr) \<noteq> None"
proof -
  have "parse_fields c \<noteq> None" for c
    unfolding parse_fields_def Let_def
    by (intro and_then_returns parseCronTime_returns) simp
  then show ?thesis by (simp add: parse_def split: sum.splits)
qed

text \<open>
  C2: \<open>isValid\<close> is to return false for a field that is a plain word. On \<open>foo * * * * *\<close> it
  returns true: \<open>parseInt\<close> turns the word into \<open>NaN\<close>, nothing is thrown, and the second
  field is parsed as the array \<open>[NaN]\<close>.
\<close>

theorem isValid_plain_word: "isValid ''foo * * * * *'' = Some True"
  by code_simp

subsection \<open>Searching\<close>














subsection \<open>The parsed field sets\<close>

lemma in_rangeD: "in_range lo hi x \<Longrightarrow> \<exists>v. x = Fin v \<and> lo \<le> v \<and> v \<le> hi"
  by (cases x) (simp_all add: in_range_def)

lemma le_num_oneD: "le_num (Fin 1) x \<Longrightarrow> \<exists>s. x = Fin s \<and> 1 \<le> s"
  by (cases x) simp_all

lemma split_str_nonempty: "split_str sep s \<noteq> []"
  by (induction s) (auto split: list.splits)

lemma parseCronTime_star:
  "hi - lo < 4294967295 \<Longrightarrow> parseCronTime (Some ''*'') lo hi = Some (Inr (map Fin [lo..hi]))"
  by (simp add: parseCronTime_def for_loop_unit)

lemma for_loop_within:
  assumes "1 \<le> s" and "lo \<le> a" and "a \<le> b" and "b \<le> hi" and "hi - lo < 4294967295"
  shows "\<exists>xs. for_loop (Fin a) (Fin b) (Fin s) [] = Inr xs \<and> xs \<noteq> []
           \<and> list_all (in_range lo hi) xs"
proof -
  have "int (length ([] :: number list)) + (b - a + 1) \<le> 4294967295"
    using assms(2,4,5) by simp
  from for_loop_positive [OF assms(1) this]
  obtain xs where xs: "for_loop (Fin a) (Fin b) (Fin s) [] = Inr xs" "a \<le> b \<longrightarrow> xs \<noteq> []"
    "list_all (\<lambda>x. \<exists>v. x = Fin v \<and> a \<le> v \<and> v \<le> b) xs" by auto
  have "list_all (in_range lo hi) xs"
    using xs(3) assms(2,4) by (auto simp: list_all_iff in_range_def)
  with xs assms(3) show ?thesis by blast
qed

lemma parseCronTime_written:
  assumes "lo \<le> hi" and "written_in_range lo hi f" and "hi - lo < 4294967295"
  shows "\<exists>xs. parseCronTime (Some f) lo hi = Some (Inr xs) \<and> xs \<noteq> []
           \<and> list_all (in_range lo hi) xs"
proof -
  consider (star) "f = ''*''"
    | (range) "f \<noteq> ''*''" "CHR ''-'' \<in> set f"
    | (step) "f \<noteq> ''*''" "CHR ''-'' \<notin> set f" "CHR ''/'' \<in> set f"
    | (list) "f \<noteq> ''*''" "CHR ''-'' \<notin> set f" "CHR ''/'' \<notin> set f" "CHR '','' \<in> set f"
    | (bare) "f \<noteq> ''*''" "CHR ''-'' \<notin> set f" "CHR ''/'' \<notin> set f" "CHR '','' \<notin> set f"
    by blast
  then show ?thesis
  proof cases
    case star
    have "list_all (in_range lo hi) (map Fin [lo..hi])"
      by (simp add: list_all_iff in_range_def)
    moreover have "map Fin [lo..hi] \<noteq> []" using assms(1) by simp
    ultimately show ?thesis using star assms(3) by (simp add: parseCronTime_star)
  next
    case range
    let ?parts = "split_str CHR ''-'' f"
    from assms(2) range
    have w: "in_range lo hi (parseInt_opt (nth_opt ?parts 0))"
      "in_range lo hi (parseInt_opt (nth_opt ?parts 1))"
      "le_num (parseInt_opt (nth_opt ?parts 0)) (parseInt_opt (nth_opt ?parts 1))"
      "le_num (Fin 1) (getStep f)"
      by (simp_all add: written_in_range_def Let_def)
    from in_rangeD [OF w(1)] obtain a where a: "parseInt_opt (nth_opt ?parts 0) = Fin a"
      "lo \<le> a" by blast
    from in_rangeD [OF w(2)] obtain b where b: "parseInt_opt (nth_opt ?parts 1) = Fin b"
      "b \<le> hi" by blast
    from le_num_oneD [OF w(4)] obtain s where s: "getStep f = Fin s" "1 \<le> s" by blast
    from w(3) a b have ab: "a \<le> b" by simp
    from for_loop_within [OF s(2) a(2) ab b(2) assms(3)] show ?thesis
      using range a b s by (auto simp: parseCronTime_def Let_def)
  next
    case step
    let ?parts = "split_str CHR ''/'' f"
    from assms(2) step
    have w: "nth_opt ?parts 0 = Some ''*'' \<or> in_range lo hi (parseInt_opt (nth_opt ?parts 0))"
      "le_num (Fin 1) (parseInt_opt (nth_opt ?parts 1))"
      by (simp_all add: written_in_range_def Let_def)
    from le_num_oneD [OF w(2)] obtain s where s: "parseInt_opt (nth_opt ?parts 1) = Fin s"
      "1 \<le> s" by blast
    define start where "start = (if nth_opt ?parts 0 = Some ''*'' then Fin lo
                          else parseInt_opt (nth_opt ?parts 0))"
    have "\<exists>a. start = Fin a \<and> lo \<le> a \<and> a \<le> hi"
      using w(1) assms(1) in_rangeD [of lo hi "parseInt_opt (nth_opt ?parts 0)"]
      by (auto simp: start_def)
    then obtain a where a: "start = Fin a" "lo \<le> a" "a \<le> hi" by blast
    from for_loop_within [OF s(2) a(2) a(3) order_refl assms(3)]
    obtain xs where "for_loop (Fin a) (Fin hi) (Fin s) [] = Inr xs" "xs \<noteq> []"
      "list_all (in_range lo hi) xs" by blast
    moreover have "parseCronTime (Some f) lo hi
      = Some (for_loop start (Fin hi) (parseInt_opt (nth_opt ?parts 1)) [])"
      using step by (simp add: parseCronTime_def Let_def start_def)
    ultimately show ?thesis using a(1) s(1) by simp
  next
    case list
    from assms(2) list
    have "list_all (\<lambda>t. in_range lo hi (parseInt t)) (split_str CHR '','' f)"
      by (simp add: written_in_range_def)
    then have "list_all (in_range lo hi) (list_loop (split_str CHR '','' f))"
      by (simp add: list_loop_def list_all_iff)
    moreover have "list_loop (split_str CHR '','' f) \<noteq> []"
      by (simp add: list_loop_def split_str_nonempty)
    ultimately show ?thesis using list by (simp add: parseCronTime_def)
  next
    case bare
    from assms(2) bare have "in_range lo hi (parseInt f)"
      by (simp add: written_in_range_def)
    then show ?thesis using bare by (simp add: parseCronTime_def)
  qed
qed

lemma and_then_InrD:
  "and_then m f = Some (Inr y) \<Longrightarrow> \<exists>x. m = Some (Inr x) \<and> f x = Some (Inr y)"
  by (auto simp: and_then_def split: option.splits sum.splits)

lemma parse_fields_InrD:
  assumes "parse_fields c = Some (Inr ct)"
  shows "\<exists>s m h d mo w.
      parseCronTime (nth_opt (split_str CHR '' '' c) 0) 0 59 = Some (Inr s)
    \<and> parseCronTime (nth_opt (split_str CHR '' '' c) 1) 0 59 = Some (Inr m)
    \<and> parseCronTime (nth_opt (split_str CHR '' '' c) 2) 0 23 = Some (Inr h)
    \<and> parseCronTime (nth_opt (split_str CHR '' '' c) 3) 1 31 = Some (Inr d)
    \<and> parseCronTime (nth_opt (split_str CHR '' '' c) 4) 1 12 = Some (Inr mo)
    \<and> parseCronTime (nth_opt (split_str CHR '' '' c) 5) 0 6 = Some (Inr w)
    \<and> ct = \<lparr>second = Some s, minute = Some m, hour = Some h, dayOfMonth = Some d,
             month = Some mo, dayOfWeek = Some w\<rparr>"
proof -
  let ?fs = "split_str CHR '' '' c"
  from assms obtain s where s: "parseCronTime (nth_opt ?fs 0) 0 59 = Some (Inr s)"
    and r1: "and_then (parseCronTime (nth_opt ?fs 1) 0 59) (\<lambda>m.
      and_then (parseCronTime (nth_opt ?fs 2) 0 23) (\<lambda>h.
      and_then (parseCronTime (nth_opt ?fs 3) 1 31) (\<lambda>d.
      and_then (parseCronTime (nth_opt ?fs 4) 1 12) (\<lambda>mo.
      and_then (parseCronTime (nth_opt ?fs 5) 0 6) (\<lambda>w.
      Some (Inr \<lparr>second = Some s, minute = Some m, hour = Some h, dayOfMonth = Some d,
                  month = Some mo, dayOfWeek = Some w\<rparr>)))))) = Some (Inr ct)"
    unfolding parse_fields_def Let_def by (blast dest: and_then_InrD)
  from r1 obtain m where m: "parseCronTime (nth_opt ?fs 1) 0 59 = Some (Inr m)"
    and r2: "and_then (parseCronTime (nth_opt ?fs 2) 0 23) (\<lambda>h.
      and_then (parseCronTime (nth_opt ?fs 3) 1 31) (\<lambda>d.
      and_then (parseCronTime (nth_opt ?fs 4) 1 12) (\<lambda>mo.
      and_then (parseCronTime (nth_opt ?fs 5) 0 6) (\<lambda>w.
      Some (Inr \<lparr>second = Some s, minute = Some m, hour = Some h, dayOfMonth = Some d,
                  month = Some mo, dayOfWeek = Some w\<rparr>))))) = Some (Inr ct)"
    by (blast dest: and_then_InrD)
  from r2 obtain h where h: "parseCronTime (nth_opt ?fs 2) 0 23 = Some (Inr h)"
    and r3: "and_then (parseCronTime (nth_opt ?fs 3) 1 31) (\<lambda>d.
      and_then (parseCronTime (nth_opt ?fs 4) 1 12) (\<lambda>mo.
      and_then (parseCronTime (nth_opt ?fs 5) 0 6) (\<lambda>w.
      Some (Inr \<lparr>second = Some s, minute = Some m, hour = Some h, dayOfMonth = Some d,
                  month = Some mo, dayOfWeek = Some w\<rparr>)))) = Some (Inr ct)"
    by (blast dest: and_then_InrD)
  from r3 obtain d where d: "parseCronTime (nth_opt ?fs 3) 1 31 = Some (Inr d)"
    and r4: "and_then (parseCronTime (nth_opt ?fs 4) 1 12) (\<lambda>mo.
      and_then (parseCronTime (nth_opt ?fs 5) 0 6) (\<lambda>w.
      Some (Inr \<lparr>second = Some s, minute = Some m, hour = Some h, dayOfMonth = Some d,
                  month = Some mo, dayOfWeek = Some w\<rparr>))) = Some (Inr ct)"
    by (blast dest: and_then_InrD)
  from r4 obtain mo where mo: "parseCronTime (nth_opt ?fs 4) 1 12 = Some (Inr mo)"
    and r5: "and_then (parseCronTime (nth_opt ?fs 5) 0 6) (\<lambda>w.
      Some (Inr \<lparr>second = Some s, minute = Some m, hour = Some h, dayOfMonth = Some d,
                  month = Some mo, dayOfWeek = Some w\<rparr>)) = Some (Inr ct)"
    by (blast dest: and_then_InrD)
  from r5 obtain w where w: "parseCronTime (nth_opt ?fs 5) 0 6 = Some (Inr w)"
    and r6: "ct = \<lparr>second = Some s, minute = Some m, hour = Some h, dayOfMonth = Some d,
                  month = Some mo, dayOfWeek = Some w\<rparr>"
    by (auto dest: and_then_InrD)
  from s m h d mo w r6 show ?thesis by blast
qed

lemma parse_field_of:
  assumes "parse_fields c = Some (Inr ct)" and "i < 6" and "declared_ranges ! i = (lo, hi)"
  shows "\<exists>xs. parseCronTime (nth_opt (split_str CHR '' '' c) i) lo hi = Some (Inr xs)
           \<and> fields_of ct ! i = Some xs"
proof -
  from parse_fields_InrD [OF assms(1)] obtain s m h d mo w where
    f: "parseCronTime (nth_opt (split_str CHR '' '' c) 0) 0 59 = Some (Inr s)"
      "parseCronTime (nth_opt (split_str CHR '' '' c) 1) 0 59 = Some (Inr m)"
      "parseCronTime (nth_opt (split_str CHR '' '' c) 2) 0 23 = Some (Inr h)"
      "parseCronTime (nth_opt (split_str CHR '' '' c) 3) 1 31 = Some (Inr d)"
      "parseCronTime (nth_opt (split_str CHR '' '' c) 4) 1 12 = Some (Inr mo)"
      "parseCronTime (nth_opt (split_str CHR '' '' c) 5) 0 6 = Some (Inr w)"
    and ct: "ct = \<lparr>second = Some s, minute = Some m, hour = Some h, dayOfMonth = Some d,
             month = Some mo, dayOfWeek = Some w\<rparr>" by blast
  from assms(2) consider "i = 0" | "i = 1" | "i = 2" | "i = 3" | "i = 4" | "i = 5" by linarith
  then show ?thesis
    using assms(3) f ct by cases (simp_all add: declared_ranges_def fields_of_def)
qed

text \<open>
  C4, as stated, fails: \<open>99 * * * * *\<close> parses, and its second field is the set of 99 alone,
  outside 0 to 59; \<open>5-1 * * * * *\<close> parses, and its second field is empty.
\<close>

theorem parse_out_of_range_counterexample:
  "Cron_parse ''99 * * * * *'' = Some (Inr (every_second\<lparr>second := Some [Fin 99]\<rparr>))
   \<and> \<not> field_ok 0 59 (Some [Fin 99])
   \<and> Cron_parse ''5-1 * * * * *'' = Some (Inr (every_second\<lparr>second := Some []\<rparr>))
   \<and> \<not> field_ok 0 59 (Some [])"
  by code_simp

text \<open>
  C4, amended: for every expression on which \<open>parse\<close> succeeds, a field written \<open>*\<close> yields
  exactly the full declared range of the field, and a field whose written numbers all lie in
  the declared range (range ends in ascending order, steps of at least 1) yields a non-empty
  set of integers of the declared range. \<open>parse\<close> does not check the numbers it reads against
  the range, so other fields may yield numbers outside of it, \<open>NaN\<close>, or nothing.
\<close>

theorem parse_field_sets:
  assumes "parse expr = (c, Some (Inr cronTime))" and "i < 6"
    and "nth_opt (split_str CHR '' '' c) i = Some f" and "declared_ranges ! i = (lo, hi)"
  shows "(f = ''*'' \<longrightarrow> fields_of cronTime ! i = Some (map Fin [lo..hi]))
       \<and> (written_in_range lo hi f \<longrightarrow> field_ok lo hi (fields_of cronTime ! i))"
proof -
  from assms(1) have pf: "parse_fields c = Some (Inr cronTime)"
    by (auto simp: parse_def split: sum.splits)
  from parse_field_of [OF pf assms(2,4)] assms(3)
  obtain xs where xs: "parseCronTime (Some f) lo hi = Some (Inr xs)"
    "fields_of cronTime ! i = Some xs" by auto
  have lohi: "lo \<le> hi \<and> hi - lo < 4294967295"
  proof -
    from assms(2) consider "i = 0" | "i = 1" | "i = 2" | "i = 3" | "i = 4" | "i = 5" by linarith
    then show ?thesis using assms(4) by cases (auto simp: declared_ranges_def)
  qed
  have "f = ''*'' \<longrightarrow> fields_of cronTime ! i = Some (map Fin [lo..hi])"
    using xs lohi by (auto simp: parseCronTime_star)
  moreover have "written_in_range lo hi f \<longrightarrow> field_ok lo hi (fields_of cronTime ! i)"
  proof
    assume "written_in_range lo hi f"
    from parseCronTime_written [OF conjunct1 [OF lohi] this conjunct2 [OF lohi]] xs show "field_ok lo hi (fields_of cronTime ! i)"
      by (auto simp: field_ok_def)
  qed
  ultimately show ?thesis by blast
qed


theorem parse_field_sets_witness:
  "parse ''1-10/2 1,2,3 * * * *'' = (''1-10/2 1,2,3 * * * *'', Some (Inr readme_example))
   \<and> written_in_range 0 59 ''1-10/2''
   \<and> field_ok 0 59 (fields_of readme_example ! 0)
   \<and> fields_of readme_example ! 2 = Some (map Fin [0..23])"
proof -
  have p: "parse ''1-10/2 1,2,3 * * * *'' = (''1-10/2 1,2,3 * * * *'', Some (Inr readme_example))"
    by code_simp
  have f0: "nth_opt (split_str CHR '' '' ''1-10/2 1,2,3 * * * *'') 0 = Some ''1-10/2''"
    and f2: "nth_opt (split_str CHR '' '' ''1-10/2 1,2,3 * * * *'') 2 = Some ''*''"
    by code_simp+
  have r0: "declared_ranges ! 0 = (0, 59)" and r2: "declared_ranges ! 2 = (0, 23)"
    by (simp_all add: declared_ranges_def)
  have w: "written_in_range 0 59 ''1-10/2''" by code_simp
  from parse_field_sets [OF p _ f0 r0] w
  have "field_ok 0 59 (fields_of readme_example ! 0)" by simp
  moreover from parse_field_sets [OF p _ f2 r2]
  have "fields_of readme_example ! 2 = Some (map Fin [0..23])" by simp
  ultimately show ?thesis using p w by blast
qed


subsection \<open>The aliases \<open>@every_N_units\<close>\<close>









subsection \<open>Starting twice\<close>

text \<open>
  C8: on a job that is running, \<open>start\<close> returns at once and leaves the job as it is, the
  cached next occurrence included.
\<close>

theorem start_running_noop:
  assumes "status this = Running"
  shows "start z now this = Returns this"
  using assms by (simp add: start_def)

theorem start_running_noop_witness:
  "start universal 0 (create ''test'' ''* * * * * *'' True False True) = Returns started_job
   \<and> status started_job = Running
   \<and> start universal 5000 started_job = Returns started_job"
proof -
  have s: "status started_job = Running" by (simp add: started_job_def)
  have "start universal 0 (create ''test'' ''* * * * * *'' True False True)
      = Returns started_job"
    by code_simp
  with start_running_noop [OF s, of universal 5000] s show ?thesis by simp
qed

subsection \<open>The table of aliases\<close>


subsection \<open>Disposing\<close>

lemma count_CBResolver:
  "count_list (CBResolver b e tr) x = count_list tr x + (if b \<and> e = x then 1 else 0)"
  by (simp add: CBResolver_def)

lemma start_keeps:
  assumes "start z now this = Returns this' \<or> start z now this = Throws e this'"
  shows "calls this' = calls this \<and> onComplete this' = onComplete this"
  using assms
  by (auto simp: start_def Let_def split: if_splits prod.splits option.splits sum.splits)

lemma on_interval_keeps:
  assumes "on_interval z now this = Returns this' \<or> on_interval z now this = Throws e this'"
  shows "count_list (calls this') OnComplete = count_list (calls this) OnComplete
     \<and> onComplete this' = onComplete this"
  using assms
  by (auto simp: on_interval_def Let_def count_CBResolver
      split: if_splits prod.splits option.splits sum.splits)

lemma stop_keeps: "calls (stop this) = calls this \<and> onComplete (stop this) = onComplete this"
  by (simp add: stop_def)

lemma destroy_counts:
  "count_list (calls (destroy this)) OnComplete
     = count_list (calls this) OnComplete + (if onComplete this then 1 else 0)
   \<and> onComplete (destroy this) = onComplete this"
  by (simp add: destroy_def Let_def count_CBResolver stop_keeps)

lemma exec_counts:
  assumes "exec z x this = Returns this' \<or> exec z x this = Throws e this'"
  shows "count_list (calls this') OnComplete
     = count_list (calls this) OnComplete
       + (if onComplete this \<and> x = Destroy then 1 else 0)
   \<and> onComplete this' = onComplete this"
proof (cases x)
  case (Start now)
  with assms start_keeps [of z now this this' e] show ?thesis by simp
next
  case Stop
  with assms stop_keeps [of this] show ?thesis by auto
next
  case Destroy
  with assms destroy_counts [of this] show ?thesis by auto
next
  case (Tick now)
  with assms on_interval_keeps [of z now this this' e] show ?thesis
    by (auto split: if_splits)
qed

text \<open>
  C6, as stated, fails: two calls of \<open>destroy\<close> on a job with an \<open>onComplete\<close> callback
  invoke the callback twice.
\<close>

theorem destroy_twice_counterexample:
  "map_option calls (run universal [Destroy, Destroy] (create ''job'' ''* * * * * *'' True False True))
     = Some [OnComplete, OnComplete]"
  by code_simp

text \<open>
  C6, amended: \<open>destroy\<close> invokes the \<open>onComplete\<close> callback once per call. Over any sequence
  of operations on a job (start, stop, destroy, a tick of its timer) that comes to its end,
  the number of invocations of \<open>onComplete\<close> grows by the number of \<open>destroy\<close> calls in the
  sequence when the callback was supplied, and by nothing otherwise.
\<close>

theorem onComplete_once_per_destroy:
  assumes "run z xs this = Some this'"
  shows "count_list (calls this') OnComplete
     = count_list (calls this) OnComplete
       + (if onComplete this then count_list xs Destroy else 0)"
  using assms
proof (induction xs arbitrary: this)
  case Nil
  then show ?case by simp
next
  case (Cons x xs)
  from Cons.prems obtain e mid where
    step: "exec z x this = Returns mid \<or> exec z x this = Throws e mid"
    and rest: "run z xs mid = Some this'"
    by (auto split: outcome.splits)
  from exec_counts [OF step] Cons.IH [OF rest] show ?case by auto
qed

theorem onComplete_once_per_destroy_witness:
  "run universal [Start 0, Tick 1000, Destroy, Start 5000, Destroy]
      (create ''job'' ''* * * * * *'' True True True)
     = Some \<lparr>name = ''job'', cron = ''* * * * * *'', callback = True, onTick = True,
      onComplete = True, interval = Some False, next_run = Some (Fin 6000), status = Stopped,
      parser = ''* * * * * *'', calls = [Callback, OnTick, OnComplete, OnComplete]\<rparr>
   \<and> count_list [Callback, OnTick, OnComplete, OnComplete] OnComplete = 2"
proof -
  have r: "run universal [Start 0, Tick 1000, Destroy, Start 5000, Destroy]
      (create ''job'' ''* * * * * *'' True True True)
     = Some \<lparr>name = ''job'', cron = ''* * * * * *'', callback = True, onTick = True,
      onComplete = True, interval = Some False, next_run = Some (Fin 6000), status = Stopped,
      parser = ''* * * * * *'', calls = [Callback, OnTick, OnComplete, OnComplete]\<rparr>"
    by code_simp
  from onComplete_once_per_destroy [OF r] r show ?thesis by (simp add: create_def)
qed

subsection \<open>Removing from the registry\<close>

text \<open>After \<open>remove\<close> no job of that name is running, as the test of the registry expects.\<close>

lemma Baker_remove_not_running: "\<not> Baker_isRunning nm (Baker_remove nm this)"
  by (auto simp: Baker_isRunning_def Baker_remove_def split: option.splits)


text \<open>
  C10: when no job has the name, \<open>remove\<close> leaves the registry as it is. When a job has the
  name, \<open>remove\<close> destroys that job and then deletes the entry: the job is stopped, its timer,
  if it ran, is cleared, and its \<open>onComplete\<close> callback, if there is one, is invoked. It is
  the same as \<open>destroy\<close> of the registry.
\<close>

theorem Baker_remove_destroys:
  "(crons this nm = None \<longrightarrow> Baker_remove nm this = this)
   \<and> (\<forall>r c. crons this nm = Some r \<and> heap this r = Some c \<longrightarrow>
         Baker_remove nm this
           = this\<lparr>heap := (heap this)(r \<mapsto> destroy c), crons := (crons this)(nm := None)\<rparr>
         \<and> destroy c = (stop c)\<lparr>calls := calls c @ (if onComplete c then [OnComplete] else [])\<rparr>
         \<and> status (destroy c) = Stopped
         \<and> (status c = Running \<longrightarrow> interval (destroy c) \<noteq> Some True))
   \<and> Baker_remove nm this = Baker_destroy nm this"
  by (auto simp: Baker_remove_def Baker_destroy_def destroy_def stop_def CBResolver_def Let_def
      split: option.splits Status.splits)

theorem Baker_remove_destroys_witness:
  "crons test_registry ''test'' = Some 0
   \<and> heap test_registry 0 = Some started_job
   \<and> Baker_remove ''test'' test_registry
       = \<lparr>heap = [0 \<mapsto> destroy started_job], crons = Map.empty\<rparr>
   \<and> calls (destroy started_job) = [OnComplete]
   \<and> status (destroy started_job) = Stopped
   \<and> interval (destroy started_job) = Some False
   \<and> crons test_registry ''other'' = None
   \<and> Baker_remove ''other'' test_registry = test_registry"
proof -
  have a: "crons test_registry ''test'' = Some 0" "heap test_registry 0 = Some started_job"
    and b: "crons test_registry ''other'' = None"
    by (simp_all add: test_registry_def)
  have d: "calls (destroy started_job) = [OnComplete]" "status (destroy started_job) = Stopped"
    "interval (destroy started_job) = Some False"
    by (simp_all add: destroy_def stop_def started_job_def CBResolver_def)
  from Baker_remove_destroys [of test_registry "''test''"] a
  have "Baker_remove ''test'' test_registry
    = test_registry\<lparr>heap := (heap test_registry)(0 \<mapsto> destroy started_job),
        crons := (crons test_registry)(''test'' := None)\<rparr>" by blast
  then have "Baker_remove ''test'' test_registry
       = \<lparr>heap = [0 \<mapsto> destroy started_job], crons = Map.empty\<rparr>"
    by (simp add: test_registry_def)
  moreover from Baker_remove_destroys [of test_registry "''other''"] b
  have "Baker_remove ''other'' test_registry = test_registry" by blast
  ultimately show ?thesis using a b d by simp
qed

end
